theory Spec2Isabelle
  imports Complex_Main "HOL-Library.Word"
begin

section \<open>Exceptions\<close>

text \<open>
  The Python exceptions that the modelled functions raise or catch. Only exceptions
  derived from \<open>Exception\<close> are modelled: they are what \<open>except Exception\<close> catches.
  \<open>LibraryError\<close> stands for any \<open>Exception\<close> raised inside a collaborator library
  (the streaming session, the HTTP client); it carries \<open>str(e)\<close>.
\<close>

datatype exn =
    RuntimeError string
  | ValueError string
  | TypeError
  | AttributeError
  | KeyError
  | IndexError
  | LibraryError string

section \<open>The E1.31 packet handler: \<open>HueEntertainmentBridge._on_dmx_data\<close>\<close>

text \<open>
  A packet of the sACN receiver: its universe and its channel data, a tuple of bytes.
\<close>

record packet =
  universe :: nat
  dmxData :: "8 word list"

text \<open>
  The argument of \<open>streaming.set_input\<close>: the tuple \<open>(r / 255.0, g / 255.0, b / 255.0, idx)\<close>.
  Python's float division of a byte by 255.0 is modelled as division in the reals.
\<close>

type_synonym color_input = "real \<times> real \<times> real \<times> nat"

text \<open>
  The part of the bridge object that the handler reads and writes. The streaming session
  is a collaborator library: it is represented by the sequence of \<open>set_input\<close> calls
  issued to it so far, in call order. \<open>error_log\<close> holds the messages given to
  \<open>logger.error\<close>. Messages of level info and debug are not modelled.
\<close>

record bridge =
  packet_count :: nat
  num_lights :: nat
  set_input_calls :: "color_input list"
  error_log :: "string list"

text \<open>
  How the session answers a \<open>set_input\<close> call, given the calls it has received before:
  \<open>None\<close> when the call returns, \<open>Some e\<close> when it raises the exception \<open>e\<close>.
\<close>

type_synonym session = "color_input list \<Rightarrow> color_input \<Rightarrow> exn option"

definition accepting :: session where
  "accepting = (\<lambda>calls c. None)"

text \<open>The tuple built for light \<open>idx\<close> from the three bytes at \<open>idx * 3\<close>.\<close>

definition light_input :: "8 word list \<Rightarrow> nat \<Rightarrow> color_input" where
  "light_input dmx idx =
     (let channel_offset = idx * 3;
          r = dmx ! (channel_offset + 0);
          g = dmx ! (channel_offset + 1);
          b = dmx ! (channel_offset + 2)
      in (real (unat r) / 255, real (unat g) / 255, real (unat b) / 255, idx))"

text \<open>
  The body of \<open>for idx in range(self.num_lights)\<close>, run over the indices still to visit.
  A light whose three bytes are not all in the frame is passed over. An exception raised
  by \<open>set_input\<close> leaves the loop; the result is the exception, if any, and the calls
  issued up to that point.
\<close>

fun process_lights ::
  "session \<Rightarrow> 8 word list \<Rightarrow> nat list \<Rightarrow> color_input list \<Rightarrow> exn option \<times> color_input list"
where
  "process_lights ses dmx [] calls = (None, calls)"
| "process_lights ses dmx (idx # rest) calls =
     (let channel_offset = idx * 3 in
      if length dmx \<ge> channel_offset + 3 then
        (case ses calls (light_input dmx idx) of
           Some e \<Rightarrow> (Some e, calls @ [light_input dmx idx])
         | None \<Rightarrow> process_lights ses dmx rest (calls @ [light_input dmx idx]))
      else process_lights ses dmx rest calls)"

text \<open>
  \<open>str(e)\<close>, as the log messages interpolate it. For the exceptions that carry a
  message it is that message. For the four classes raised by Python's own operations on
  values the text is the interpreter's and is not modelled: the class name stands for it.
\<close>

fun str_exn :: "exn \<Rightarrow> string" where
  "str_exn (RuntimeError m) = m"
| "str_exn (ValueError m) = m"
| "str_exn TypeError = ''TypeError''"
| "str_exn AttributeError = ''AttributeError''"
| "str_exn KeyError = ''KeyError''"
| "str_exn IndexError = ''IndexError''"
| "str_exn (LibraryError m) = m"

text \<open>
  The handler: count the packet, run the loop, and log any exception instead of
  raising it (\<open>except Exception\<close> around the whole body).
\<close>

definition on_dmx_data :: "session \<Rightarrow> bridge \<Rightarrow> packet \<Rightarrow> bridge" where
  "on_dmx_data ses self pkt =
     (let self1 = self\<lparr>packet_count := packet_count self + 1\<rparr>;
          dmx = dmxData pkt
      in case process_lights ses dmx [0 ..< num_lights self1] (set_input_calls self1) of
           (None, calls) \<Rightarrow> self1\<lparr>set_input_calls := calls\<rparr>
         | (Some e, calls) \<Rightarrow>
             self1\<lparr>set_input_calls := calls,
                    error_log := error_log self1 @ [''Error processing E1.31 data: '' @ str_exn e]\<rparr>)"

text \<open>The calls that one packet adds to the session.\<close>

definition frame_calls :: "session \<Rightarrow> bridge \<Rightarrow> packet \<Rightarrow> color_input list" where
  "frame_calls ses self pkt =
     drop (length (set_input_calls self)) (set_input_calls (on_dmx_data ses self pkt))"

section \<open>Stopping the session: \<open>HueEntertainmentBridge.stop_streaming\<close>\<close>

text \<open>
  The underlying \<open>streaming.stop_stream()\<close> either returns (\<open>None\<close>) or raises. The
  method returns normally (\<open>Inr\<close>) or raises (\<open>Inl\<close>); the exception handler logs.
\<close>

definition stop_streaming :: "exn option \<Rightarrow> bridge \<Rightarrow> exn + bridge" where
  "stop_streaming stop_stream self =
     (case stop_stream of
        None \<Rightarrow> Inr self
      | Some e \<Rightarrow> Inr (self\<lparr>error_log := error_log self @ [''Error stopping streaming: '' @ str_exn e]\<rparr>))"

section \<open>Python values\<close>

text \<open>
  A value decoded from JSON (\<open>resp.json()\<close>, \<open>json.load\<close>). A dictionary is an
  association list read with \<open>map_of\<close>.
\<close>

datatype json =
    JNull
  | JBool bool
  | JNum real
  | JStr string
  | JArr "json list"
  | JObj "(string \<times> json) list"

text \<open>Python's truth value of such a value.\<close>

fun truthy :: "json \<Rightarrow> bool" where
  "truthy JNull = False"
| "truthy (JBool b) = b"
| "truthy (JNum x) = (x \<noteq> 0)"
| "truthy (JStr s) = (s \<noteq> [])"
| "truthy (JArr xs) = (xs \<noteq> [])"
| "truthy (JObj kvs) = (kvs \<noteq> [])"

text \<open>\<open>a or b\<close>.\<close>

definition py_or :: "json \<Rightarrow> json \<Rightarrow> json" where
  "py_or a b = (if truthy a then a else b)"

text \<open>
  \<open>str.lower()\<close> on the ASCII letters; other bytes are kept.
\<close>

definition lower_char :: "char \<Rightarrow> char" where
  "lower_char c =
     (case map_of (zip ''ABCDEFGHIJKLMNOPQRSTUVWXYZ'' ''abcdefghijklmnopqrstuvwxyz'') c of
        None \<Rightarrow> c
      | Some l \<Rightarrow> l)"

definition lower :: "string \<Rightarrow> string" where
  "lower s = map lower_char s"

text \<open>\<open>needle in haystack\<close> for two strings.\<close>

fun starts_with :: "string \<Rightarrow> string \<Rightarrow> bool" where
  "starts_with [] ys = True"
| "starts_with (x # xs) [] = False"
| "starts_with (x # xs) (y # ys) = (x = y \<and> starts_with xs ys)"

fun contains :: "string \<Rightarrow> string \<Rightarrow> bool" where
  "contains needle [] = (needle = [])"
| "contains needle (y # ys) = (starts_with needle (y # ys) \<or> contains needle ys)"

text \<open>Sequencing of steps that may raise.\<close>

definition and_then :: "exn + 'a \<Rightarrow> ('a \<Rightarrow> exn + 'b) \<Rightarrow> exn + 'b" where
  "and_then m f = (case m of Inl e \<Rightarrow> Inl e | Inr x \<Rightarrow> f x)"

text \<open>\<open>x.get(k, default)\<close>: only a dictionary has \<open>get\<close>.\<close>

fun py_get :: "json \<Rightarrow> string \<Rightarrow> json \<Rightarrow> exn + json" where
  "py_get (JObj kvs) k dflt = Inr (case map_of kvs k of None \<Rightarrow> dflt | Some v \<Rightarrow> v)"
| "py_get x k dflt = Inl AttributeError"

text \<open>\<open>k in x\<close> for a string \<open>k\<close>.\<close>

fun py_in :: "string \<Rightarrow> json \<Rightarrow> exn + bool" where
  "py_in k (JObj kvs) = Inr (map_of kvs k \<noteq> None)"
| "py_in k (JStr s) = Inr (contains k s)"
| "py_in k (JArr xs) = Inr (JStr k \<in> set xs)"
| "py_in k x = Inl TypeError"

text \<open>\<open>x[k]\<close> for a string \<open>k\<close>.\<close>

fun py_item :: "json \<Rightarrow> string \<Rightarrow> exn + json" where
  "py_item (JObj kvs) k = (case map_of kvs k of None \<Rightarrow> Inl KeyError | Some v \<Rightarrow> Inr v)"
| "py_item x k = Inl TypeError"

text \<open>\<open>len(x)\<close> and \<open>x[0]\<close>.\<close>

fun py_len :: "json \<Rightarrow> exn + nat" where
  "py_len (JStr s) = Inr (length s)"
| "py_len (JArr xs) = Inr (length xs)"
| "py_len (JObj kvs) = Inr (length kvs)"
| "py_len x = Inl TypeError"

fun py_first :: "json \<Rightarrow> exn + json" where
  "py_first (JArr (x # xs)) = Inr x"
| "py_first (JArr []) = Inl IndexError"
| "py_first (JStr (c # cs)) = Inr (JStr [c])"
| "py_first (JStr []) = Inl IndexError"
| "py_first (JObj kvs) = Inl KeyError"
| "py_first x = Inl TypeError"

section \<open>Console output\<close>

text \<open>
  One constructor for each message the modelled functions print or log as an error;
  the banner texts themselves are not modelled.
\<close>

datatype out =
    PairingBanner
  | PairingSuccess json json
  | ErrorLine string
  | Waiting nat
  | TimeoutBanner
  | LastError json
  | TryAgainHint
  | ForceRepairNotice
  | MissingClientkeyNotice
  | NoCredentialsNotice
  | AreasHeader
  | NoAreasFound
  | AreaEntry nat string string nat
  | AreasFooter
  | UseAreaHint
  | LogError string

section \<open>Pairing: \<open>create_entertainment_user\<close>\<close>

text \<open>
  What one \<open>requests.post\<close> with \<open>raise_for_status\<close> and \<open>resp.json()\<close> gives:
  a \<open>RequestException\<close> (with \<open>str(e)\<close>), some other exception, or the decoded body.
\<close>

datatype response =
    RequestException string
  | OtherException exn
  | Json json

text \<open>
  The \<open>"success" in item\<close> block: the credential pair when both values are truthy.
\<close>

definition check_success :: "json \<Rightarrow> exn + (json \<times> json) option" where
  "check_success item =
     and_then (py_in ''success'' item) (\<lambda>present.
       if present then
         and_then (py_item item ''success'') (\<lambda>success.
         and_then (py_get success ''username'' JNull) (\<lambda>username.
         and_then (py_get success ''clientkey'' JNull) (\<lambda>clientkey.
           if truthy username \<and> truthy clientkey then Inr (Some (username, clientkey))
           else Inr None)))
       else Inr None)"

text \<open>
  The \<open>"error" in item\<close> block: the value assigned to \<open>last_err\<close>, if any, and what
  is printed. \<open>error_desc.lower()\<close> raises when the description is not a string.
\<close>

definition check_error :: "json \<Rightarrow> exn + (json option \<times> out list)" where
  "check_error item =
     and_then (py_in ''error'' item) (\<lambda>present.
       if present then
         and_then (py_item item ''error'') (\<lambda>err.
         and_then (py_get err ''description'' (JStr [])) (\<lambda>error_desc.
           case error_desc of
             JStr d \<Rightarrow>
               if \<not> contains ''link button not pressed'' (lower d)
               then Inr (Some error_desc, [ErrorLine d])
               else Inr (Some error_desc, [])
           | _ \<Rightarrow> Inl AttributeError))
       else Inr (None, []))"

text \<open>
  One pass through the body of the \<open>while\<close> loop, up to the waiting animation:
  the function returns the pair, an exception leaves the function, or the loop goes on
  with a possibly new \<open>last_err\<close> and the lines printed.
\<close>

datatype attempt_result =
    Paired json json
  | Raised exn
  | Retry "json option" "out list"

definition attempt :: "response \<Rightarrow> attempt_result" where
  "attempt resp =
     (case resp of
        RequestException m \<Rightarrow> Retry (Some (JStr m)) []
      | OtherException e \<Rightarrow> Raised e
      | Json data \<Rightarrow>
          (case data of
             JArr (item # rest) \<Rightarrow>
               (case check_success item of
                  Inl e \<Rightarrow> Raised e
                | Inr (Some (username, clientkey)) \<Rightarrow> Paired username clientkey
                | Inr None \<Rightarrow>
                    (case check_error item of
                       Inl e \<Rightarrow> Raised e
                     | Inr (le, printed) \<Rightarrow> Retry le printed))
           | _ \<Rightarrow> Retry None []))"

text \<open>
  The world outside: the clock (\<open>time.time()\<close>, in milliseconds), the number of
  pairing requests sent so far, and the console. The bridge and the network are a function
  from the number of a request to its response and the time the request took.
  \<open>time.sleep(2)\<close> advances the clock by 2000.
\<close>

record world =
  clock :: nat
  attempts :: nat
  console :: "out list"

type_synonym env = "nat \<Rightarrow> response \<times> nat"

definition pairing_failed :: exn where
  "pairing_failed =
     RuntimeError ''Failed to create Entertainment credentials. Did you press the link button?''"

function pair_loop ::
  "env \<Rightarrow> nat \<Rightarrow> json \<Rightarrow> nat \<Rightarrow> world \<Rightarrow> (exn + json \<times> json) \<times> world"
where
  "pair_loop env deadline last_err dots w =
     (if clock w < deadline then
        (let (resp, took) = env (attempts w);
             w1 = w\<lparr>clock := clock w + took, attempts := attempts w + 1\<rparr>
         in case attempt resp of
              Paired username clientkey \<Rightarrow>
                (Inr (username, clientkey),
                 w1\<lparr>console := console w1 @ [PairingSuccess username clientkey]\<rparr>)
            | Raised e \<Rightarrow> (Inl e, w1)
            | Retry le printed \<Rightarrow>
                (let dots1 = (dots + 1) mod 4;
                     w2 = w1\<lparr>console := console w1 @ printed @ [Waiting dots1],
                              clock := clock w1 + 2000\<rparr>
                 in pair_loop env deadline (case le of None \<Rightarrow> last_err | Some d \<Rightarrow> d) dots1 w2))
      else
        (Inl pairing_failed,
         w\<lparr>console := console w @ [TimeoutBanner]
                       @ (if truthy last_err then [LastError last_err] else [])
                       @ [TryAgainHint]\<rparr>))"
  by pat_completeness auto
termination
  by (relation "measure (\<lambda>(env, deadline, last_err, dots, w). deadline - clock w)") auto

definition create_entertainment_user :: "env \<Rightarrow> world \<Rightarrow> (exn + json \<times> json) \<times> world" where
  "create_entertainment_user env w =
     (let w1 = w\<lparr>console := console w @ [PairingBanner]\<rparr>;
          deadline = clock w1 + 30000
      in pair_loop env deadline JNull 0 w1)"

section \<open>Credentials: \<open>ensure_app_key\<close>\<close>

text \<open>
  The stored configuration is a dictionary from keys to JSON values; \<open>cfg.get(k)\<close>
  gives \<open>None\<close> for a missing key.
\<close>

type_synonym config = "string \<rightharpoonup> json"

definition cfg_get :: "config \<Rightarrow> string \<Rightarrow> json" where
  "cfg_get cfg k = (case cfg k of None \<Rightarrow> JNull | Some v \<Rightarrow> v)"

text \<open>
  \<open>app_key\<close> is the command-line value (\<open>JNull\<close> when the option is not given) and
  \<open>utcnow\<close> the text of \<open>datetime.utcnow().isoformat()\<close>. The result is the returned
  triple or the exception raised, with the world after the call.
\<close>

definition ensure_app_key ::
  "env \<Rightarrow> string \<Rightarrow> world \<Rightarrow> json \<Rightarrow> config \<Rightarrow> bool
     \<Rightarrow> (exn + json \<times> json \<times> config) \<times> world"
where
  "ensure_app_key env utcnow w app_key cfg force_repair =
     (if force_repair then
        (case create_entertainment_user env (w\<lparr>console := console w @ [ForceRepairNotice]\<rparr>) of
           (Inl e, w1) \<Rightarrow> (Inl e, w1)
         | (Inr (username, clientkey), w1) \<Rightarrow>
             (Inr (username, clientkey,
                   cfg(''app_key'' \<mapsto> username, ''clientkey'' \<mapsto> clientkey,
                       ''updated_at'' \<mapsto> JStr (utcnow @ ''Z''))),
              w1))
      else
        (let username = py_or app_key (cfg_get cfg ''app_key'');
             clientkey = cfg_get cfg ''clientkey''
         in if truthy username \<and> truthy clientkey then (Inr (username, clientkey, cfg), w)
            else if truthy username \<and> \<not> truthy clientkey then
              (Inl (RuntimeError ''Missing clientkey. Run with --re-pair''),
               w\<lparr>console := console w @ [MissingClientkeyNotice]\<rparr>)
            else
              (Inl (RuntimeError ''No credentials found. Run with --re-pair''),
               w\<lparr>console := console w @ [NoCredentialsNotice]\<rparr>)))"

section \<open>Bridge information: \<open>get_bridge_info\<close>\<close>

record bridge_info =
  info_id :: json
  info_rid :: json
  info_name :: json
  info_swversion :: int
  info_hue_app_id :: json

text \<open>
  The body of the \<open>try\<close> block, given what \<open>hue_get\<close> did (raised, or returned the
  decoded body): an exception, the returned dictionary, or neither when the condition
  of the \<open>if\<close> is false.
\<close>

definition bridge_info_try :: "exn + json \<Rightarrow> exn + bridge_info option" where
  "bridge_info_try queried =
     and_then queried (\<lambda>data.
     and_then (py_get data ''data'' JNull) (\<lambda>d.
       if \<not> truthy d then Inr None
       else
         and_then (py_len d) (\<lambda>n.
           if \<not> n > 0 then Inr None
           else
             and_then (py_first d) (\<lambda>bridge_data.
             and_then (py_get bridge_data ''id'' JNull) (\<lambda>ident.
             and_then (py_get bridge_data ''owner'' (JObj [])) (\<lambda>owner.
             and_then (py_get owner ''rid'' JNull) (\<lambda>rid.
             and_then (py_get bridge_data ''metadata'' JNull) (\<lambda>metadata.
             and_then (py_get (py_or metadata (JObj [])) ''name'' (JStr ''Hue Bridge'')) (\<lambda>nm.
               Inr (Some \<lparr>info_id = ident,
                          info_rid = py_or rid ident,
                          info_name = nm,
                          info_swversion = 1962097030,
                          info_hue_app_id = ident\<rparr>))))))))))"

definition fallback_info :: bridge_info where
  "fallback_info =
     \<lparr>info_id = JStr ''default-bridge-id'',
      info_rid = JStr ''default-bridge-rid'',
      info_name = JStr ''Hue Bridge'',
      info_swversion = 1962097030,
      info_hue_app_id = JStr ''default-app-id''\<rparr>"

text \<open>
  \<open>except Exception\<close> logs a warning and falls through to the fallback, as does a
  false condition.
\<close>

definition get_bridge_info :: "exn + json \<Rightarrow> bridge_info" where
  "get_bridge_info queried =
     (case bridge_info_try queried of
        Inr (Some info) \<Rightarrow> info
      | Inr None \<Rightarrow> fallback_info
      | Inl e \<Rightarrow> fallback_info)"

section \<open>Area selection: \<open>HueEntertainmentBridge.__init__\<close> and \<open>main\<close>\<close>

text \<open>
  An entertainment configuration of the library: the source reads its \<open>channels\<close>;
  \<open>config_name\<close> is the display name the bridge gives the area. The catalog returned by
  \<open>get_entertainment_configs()\<close> is a dictionary from area identifiers to configurations,
  in iteration order.
\<close>

record area_config =
  config_name :: string
  channels :: "nat list"

type_synonym catalog = "(string \<times> area_config) list"

text \<open>
  The \<open>for area_id, config in entertainment_configs.items()\<close> loop: the selected
  configuration and \<open>self.area_name\<close>, or \<open>None\<close> when the loop ends without a match.
\<close>

fun find_area :: "catalog \<Rightarrow> string \<Rightarrow> (area_config \<times> string) option" where
  "find_area [] entertainment_area_name = None"
| "find_area ((area_id, config) # rest) entertainment_area_name =
     (if lower area_id = lower entertainment_area_name then Some (config, entertainment_area_name)
      else if lower area_id = lower entertainment_area_name then Some (config, area_id)
      else find_area rest entertainment_area_name)"

definition quoted :: "string \<Rightarrow> string" where
  "quoted s = [CHR 0x27] @ s @ [CHR 0x27]"

text \<open>
  The second \<open>try\<close> block of the constructor, given what \<open>get_entertainment_configs()\<close>
  did: the selected configuration with \<open>self.area_name\<close>, or the exception that leaves
  the block. The handler of the block logs the exception before raising it again; that
  line is written by \<open>start_bridge\<close> below.
\<close>

definition select_area :: "exn + catalog \<Rightarrow> string \<Rightarrow> exn + area_config \<times> string" where
  "select_area fetched entertainment_area_name =
     (case fetched of
        Inl e \<Rightarrow> Inl e
      | Inr entertainment_configs \<Rightarrow>
          (case find_area entertainment_configs entertainment_area_name of
             None \<Rightarrow>
               Inl (ValueError (''Entertainment area '' @ quoted entertainment_area_name @ '' not found''))
           | Some found \<Rightarrow> Inr found))"

text \<open>
  The end of \<open>main\<close>, after the bridge object is created: the listing branch and the
  start of the bridge. \<open>area\<close> is \<open>args.area\<close>, \<open>area_names\<close> the result of
  \<open>get_entertainment_area_names\<close>, and \<open>run\<close> says whether the rest of the constructor
  and \<open>run()\<close> raise for the selected configuration, with the error lines they log
  before raising. The result is the exit code and what is printed or logged as an error.
\<close>

definition area_entries :: "catalog \<Rightarrow> (string \<rightharpoonup> string) \<Rightarrow> out list" where
  "area_entries entertainment_configs area_names =
     map (\<lambda>(idx, (area_id, config)).
            AreaEntry (idx + 1)
              (case area_names area_id of None \<Rightarrow> area_id | Some n \<Rightarrow> n)
              area_id (length (channels config)))
         (enumerate 0 entertainment_configs)"

definition list_areas :: "bool \<Rightarrow> exn + catalog \<Rightarrow> (string \<rightharpoonup> string) \<Rightarrow> int \<times> out list" where
  "list_areas list_flag fetched area_names =
     (case fetched of
        Inl e \<Rightarrow>
          (5, [LogError (''Failed to get entertainment configurations: '' @ str_exn e),
               LogError ''Make sure you have created an Entertainment Area in the Hue app.''])
      | Inr entertainment_configs \<Rightarrow>
          if entertainment_configs = [] then (6, [AreasHeader, NoAreasFound])
          else (0, [AreasHeader] @ area_entries entertainment_configs area_names
                     @ [AreasFooter] @ (if \<not> list_flag then [UseAreaHint] else [])))"

text \<open>
  The constructor and \<open>run()\<close> inside the \<open>try\<close> of \<open>main\<close>. An exception of the
  selection block is logged twice: by the constructor
  (\<open>Failed to get entertainment configurations\<close>) and by \<open>main\<close>
  (\<open>Failed to start bridge\<close>).
\<close>

definition start_bridge ::
  "string \<Rightarrow> exn + catalog \<Rightarrow> (area_config \<Rightarrow> (out list \<times> exn) option) \<Rightarrow> int \<times> out list"
where
  "start_bridge area fetched run =
     (case select_area fetched area of
        Inl e \<Rightarrow>
          (7, [LogError (''Failed to get entertainment configurations: '' @ str_exn e),
               LogError (''Failed to start bridge: '' @ str_exn e)])
      | Inr (config, area_name) \<Rightarrow>
          (case run config of
             Some (logged, e) \<Rightarrow> (7, logged @ [LogError (''Failed to start bridge: '' @ str_exn e)])
           | None \<Rightarrow> (0, [])))"

text \<open>\<open>if args.list or not args.area\<close>: the option is missing or empty.\<close>

definition main_areas ::
  "bool \<Rightarrow> string option \<Rightarrow> exn + catalog \<Rightarrow> (string \<rightharpoonup> string)
     \<Rightarrow> (area_config \<Rightarrow> (out list \<times> exn) option) \<Rightarrow> int \<times> out list"
where
  "main_areas list_flag area fetched area_names run =
     (case area of
        None \<Rightarrow> list_areas list_flag fetched area_names
      | Some a \<Rightarrow>
          if list_flag \<or> a = [] then list_areas list_flag fetched area_names
          else start_bridge a fetched run)"

section \<open>Responses and observations used in the statements\<close>

text \<open>
  The bridge's answer to a pairing request while the link button is not pressed is
  \<open>[{"error": {"type": 101, "address": "", "description": "link button not pressed"}}]\<close>;
  \<open>error_response d\<close> is an answer of that shape with description \<open>d\<close>, and
  \<open>success_response u k\<close> the answer that carries a user name and a client key.
\<close>

definition error_response :: "string \<Rightarrow> response" where
  "error_response d =
     Json (JArr [JObj [(''error'',
       JObj [(''type'', JNum 101), (''address'', JStr []), (''description'', JStr d)])]])"

definition success_response :: "string \<Rightarrow> string \<Rightarrow> response" where
  "success_response u k =
     Json (JArr [JObj [(''success'', JObj [(''username'', JStr u), (''clientkey'', JStr k)])]])"

text \<open>The test the loop applies to a description before printing it.\<close>

definition not_pressed_text :: "string \<Rightarrow> bool" where
  "not_pressed_text d = contains ''link button not pressed'' (lower d)"

text \<open>
  A response counts as "link button not pressed" when its first item is a dictionary
  without \<open>success\<close> whose \<open>error\<close> has a description that passes that test.
\<close>

definition link_button_not_pressed :: "response \<Rightarrow> bool" where
  "link_button_not_pressed resp =
     (case resp of
        Json (JArr (JObj item # rest)) \<Rightarrow>
          map_of item ''success'' = None \<and>
          (case map_of item ''error'' of
             Some (JObj err) \<Rightarrow>
               (case map_of err ''description'' of
                  Some (JStr d) \<Rightarrow> not_pressed_text d
                | _ \<Rightarrow> False)
           | _ \<Rightarrow> False)
      | _ \<Rightarrow> False)"

text \<open>
  The description of an error response: the first item is a dictionary without
  \<open>success\<close> whose \<open>error\<close> is a dictionary; a missing description reads as the empty
  text. Any other field of the error (its type, its address) is free.
\<close>

definition error_text :: "response \<Rightarrow> string option" where
  "error_text resp =
     (case resp of
        Json (JArr (JObj item # rest)) \<Rightarrow>
          if map_of item ''success'' \<noteq> None then None
          else
            (case map_of item ''error'' of
               Some (JObj err) \<Rightarrow>
                 (case map_of err ''description'' of
                    None \<Rightarrow> Some []
                  | Some (JStr d) \<Rightarrow> Some d
                  | _ \<Rightarrow> None)
             | _ \<Rightarrow> None)
      | _ \<Rightarrow> None)"

text \<open>The per-attempt error lines and the "Last error" lines of a console, in order.\<close>

definition error_lines :: "out list \<Rightarrow> string list" where
  "error_lines os = concat (map (\<lambda>x. case x of ErrorLine d \<Rightarrow> [d] | _ \<Rightarrow> []) os)"

definition last_errors :: "out list \<Rightarrow> json list" where
  "last_errors os = concat (map (\<lambda>x. case x of LastError e \<Rightarrow> [e] | _ \<Rightarrow> []) os)"

text \<open>
  What one request contributes when the loop goes on after it: the error lines it
  prints and the value it stores in \<open>last_err\<close>. What the timeout reports, given the
  values stored in order: the last one, when it is truthy.
\<close>

definition surfaced :: "response \<Rightarrow> string list" where
  "surfaced resp = (case attempt resp of Retry le printed \<Rightarrow> error_lines printed | _ \<Rightarrow> [])"

definition recorded :: "response \<Rightarrow> json list" where
  "recorded resp =
     (case attempt resp of
        Retry le printed \<Rightarrow> (case le of None \<Rightarrow> [] | Some v \<Rightarrow> [v])
      | _ \<Rightarrow> [])"

definition reported :: "json list \<Rightarrow> json list" where
  "reported stored = (if stored \<noteq> [] \<and> truthy (last stored) then [last stored] else [])"

text \<open>Bridges for the examples; every request takes the given number of milliseconds.\<close>

definition never_pressed :: env where
  "never_pressed = (\<lambda>k. (error_response ''link button not pressed'', 100))"

definition pressed_on_second :: env where
  "pressed_on_second =
     (\<lambda>k. (if k = 0 then error_response ''link button not pressed''
            else success_response ''user-1'' ''key-1'', 100))"

definition unauthorized_then_not_pressed :: env where
  "unauthorized_then_not_pressed =
     (\<lambda>k. (if k = 0 then error_response ''unauthorized user''
            else error_response ''link button not pressed'', 14000))"

definition unauthorized_then_unreachable :: env where
  "unauthorized_then_unreachable =
     (\<lambda>k. (if k = 0 then
              Json (JArr [JObj [(''error'',
                JObj [(''type'', JNum 1), (''address'', JStr ''/''),
                      (''description'', JStr ''unauthorized user'')])]])
            else RequestException ''connection refused'', 14000))"

definition fresh_world :: world where
  "fresh_world = \<lparr>clock = 0, attempts = 0, console = []\<rparr>"

text \<open>A catalog with one area, and collaborators that do nothing special.\<close>

definition living_room_catalog :: catalog where
  "living_room_catalog =
     [(''3f1e'', \<lparr>config_name = ''Living Room'', channels = [0, 1]\<rparr>),
      (''9a2c'', \<lparr>config_name = ''Office'', channels = [0]\<rparr>)]"

definition no_names :: "string \<rightharpoonup> string" where
  "no_names = Map.empty"

definition runs_until_stopped :: "area_config \<Rightarrow> (out list \<times> exn) option" where
  "runs_until_stopped = (\<lambda>config. None)"

section \<open>Properties of the packet handler\<close>

text \<open>
  With a session that accepts every call, the loop issues one call for each index whose
  three bytes are in the frame, in the order of the indices, and no exception arises.
\<close>

lemma process_lights_accepting:
  "process_lights accepting dmx idxs calls =
     (None, calls @ map (light_input dmx) (filter (\<lambda>i. i * 3 + 3 \<le> length dmx) idxs))"
  by (induction idxs arbitrary: calls) (simp_all add: accepting_def)

lemma process_lights_extends:
  "\<exists>ys. snd (process_lights ses dmx idxs calls) = calls @ ys \<and> length ys \<le> length idxs"
proof (induction idxs arbitrary: calls)
  case Nil
  then show ?case by simp
next
  case (Cons idx rest)
  show ?case
  proof (cases "idx * 3 + 3 \<le> length dmx")
    case False
    with Cons[of calls] show ?thesis by auto
  next
    case True
    show ?thesis
    proof (cases "ses calls (light_input dmx idx)")
      case (Some e)
      with True show ?thesis by simp
    next
      case None
      from Cons[of "calls @ [light_input dmx idx]"] obtain ys where
        "snd (process_lights ses dmx rest (calls @ [light_input dmx idx])) = (calls @ [light_input dmx idx]) @ ys"
        "length ys \<le> length rest" by blast
      with True None show ?thesis by simp
    qed
  qed
qed

lemma frame_calls_accepting:
  "frame_calls accepting self pkt =
     map (light_input (dmxData pkt)) (filter (\<lambda>i. i * 3 + 3 \<le> length (dmxData pkt)) [0 ..< num_lights self])"
  by (simp add: frame_calls_def on_dmx_data_def process_lights_accepting Let_def)

lemma error_log_accepting:
  "error_log (on_dmx_data accepting self pkt) = error_log self"
  by (simp add: on_dmx_data_def process_lights_accepting Let_def)

lemma frame_calls_length:
  "length (frame_calls ses self pkt) \<le> num_lights self"
proof -
  obtain ys where ys: "snd (process_lights ses (dmxData pkt) [0 ..< num_lights self] (set_input_calls self)) = set_input_calls self @ ys"
     "length ys \<le> length [0 ..< num_lights self]"
    using process_lights_extends by blast
  obtain r cs where p: "process_lights ses (dmxData pkt) [0 ..< num_lights self] (set_input_calls self) = (r, cs)"
    by (cases "process_lights ses (dmxData pkt) [0 ..< num_lights self] (set_input_calls self)")
  with ys have "cs = set_input_calls self @ ys" by simp
  with p ys(2) show ?thesis
    by (cases r) (simp_all add: frame_calls_def on_dmx_data_def Let_def)
qed

lemma byte_unit: "0 \<le> real (unat (b :: 8 word)) / 255 \<and> real (unat b) / 255 \<le> 1"
proof -
  have "unat b < 2 ^ LENGTH(8)" by (rule unsigned_less)
  then have "unat b \<le> 255" by simp
  then have "real (unat b) \<le> real 255" by (rule of_nat_mono)
  moreover have "0 \<le> real (unat b)" by (rule of_nat_0_le_iff)
  ultimately show ?thesis by simp
qed

text \<open>
  Claim C2. For a frame of exactly \<open>num_lights * 3\<close> bytes, and a session that accepts
  its inputs, the handler issues exactly \<open>num_lights\<close> calls of \<open>set_input\<close>; the call
  at position \<open>i\<close> is the one for light \<open>i\<close>, so the calls are in ascending index
  order, one for each index below \<open>num_lights\<close>; its three components are the bytes at
  \<open>i * 3\<close>, \<open>i * 3 + 1\<close> and \<open>i * 3 + 2\<close> divided by 255, each between 0 and 1. The
  calls are appended to those the session already received and nothing is logged as an
  error.
\<close>

theorem full_frame_translation:
  assumes "length (dmxData pkt) = num_lights self * 3"
  shows "length (frame_calls accepting self pkt) = num_lights self
       \<and> (\<forall>i < num_lights self.
             frame_calls accepting self pkt ! i =
               (real (unat (dmxData pkt ! (i * 3))) / 255,
                real (unat (dmxData pkt ! (i * 3 + 1))) / 255,
                real (unat (dmxData pkt ! (i * 3 + 2))) / 255, i)
           \<and> 0 \<le> real (unat (dmxData pkt ! (i * 3))) / 255
           \<and> real (unat (dmxData pkt ! (i * 3))) / 255 \<le> 1
           \<and> 0 \<le> real (unat (dmxData pkt ! (i * 3 + 1))) / 255
           \<and> real (unat (dmxData pkt ! (i * 3 + 1))) / 255 \<le> 1
           \<and> 0 \<le> real (unat (dmxData pkt ! (i * 3 + 2))) / 255
           \<and> real (unat (dmxData pkt ! (i * 3 + 2))) / 255 \<le> 1)
       \<and> set_input_calls (on_dmx_data accepting self pkt) =
           set_input_calls self @ frame_calls accepting self pkt
       \<and> error_log (on_dmx_data accepting self pkt) = error_log self"
proof -
  let ?dmx = "dmxData pkt" and ?n = "num_lights self"
  have all: "filter (\<lambda>i. i * 3 + 3 \<le> length ?dmx) [0 ..< ?n] = [0 ..< ?n]"
    using assms by (auto intro: filter_True)
  have fc: "frame_calls accepting self pkt = map (light_input ?dmx) [0 ..< ?n]"
    by (simp add: frame_calls_accepting all)
  have len: "length (frame_calls accepting self pkt) = ?n"
    by (simp add: fc)
  have nth: "frame_calls accepting self pkt ! i =
               (real (unat (?dmx ! (i * 3))) / 255,
                real (unat (?dmx ! (i * 3 + 1))) / 255,
                real (unat (?dmx ! (i * 3 + 2))) / 255, i)" if "i < ?n" for i
    using that by (simp add: fc light_input_def Let_def)
  have app: "set_input_calls (on_dmx_data accepting self pkt) =
           set_input_calls self @ frame_calls accepting self pkt"
    by (simp add: frame_calls_def on_dmx_data_def process_lights_accepting Let_def)
  show ?thesis
    using len nth app error_log_accepting[of self pkt] byte_unit by simp
qed

theorem full_frame_translation_witness:
  "length (dmxData \<lparr>universe = 1, dmxData = [255, 0, 0, 0, 255, 0]\<rparr>)
     = num_lights \<lparr>packet_count = 0, num_lights = 2, set_input_calls = [], error_log = []\<rparr> * 3
   \<and> frame_calls accepting
        \<lparr>packet_count = 0, num_lights = 2, set_input_calls = [], error_log = []\<rparr>
        \<lparr>universe = 1, dmxData = [255, 0, 0, 0, 255, 0]\<rparr>
      = [(1, 0, 0, 0), (0, 1, 0, 1)]"
proof -
  let ?self = "\<lparr>packet_count = 0, num_lights = 2, set_input_calls = [], error_log = []\<rparr>"
  let ?pkt = "\<lparr>universe = 1, dmxData = [255, 0, 0, 0, 255, 0 :: 8 word]\<rparr>"
  have h: "length (dmxData ?pkt) = num_lights ?self * 3" by simp
  note t = full_frame_translation[OF h]
  from t have len: "length (frame_calls accepting ?self ?pkt) = 2" by simp
  from t have n0: "frame_calls accepting ?self ?pkt ! 0 = (1, 0, 0, 0)" by simp
  from t have "\<forall>i < num_lights ?self. frame_calls accepting ?self ?pkt ! i =
               (real (unat (dmxData ?pkt ! (i * 3))) / 255,
                real (unat (dmxData ?pkt ! (i * 3 + 1))) / 255,
                real (unat (dmxData ?pkt ! (i * 3 + 2))) / 255, i)" by blast
  from this[rule_format, of 1] have n1: "frame_calls accepting ?self ?pkt ! 1 = (0, 1, 0, 1)" by simp
  show ?thesis using h len n0 n1 
    by (simp add: list_eq_iff_nth_eq less_Suc_eq numeral_2_eq_2)
qed

text \<open>
  Claim C3. For every frame and every light index \<open>i\<close> below \<open>num_lights\<close>, with a
  session that accepts its inputs, a call for slot \<open>i\<close> is issued if and only if the frame
  has at least \<open>i * 3 + 3\<close> bytes, and a covered slot receives the tuple built from its
  own three bytes. A slot that is passed over leaves no entry in the error log. Whatever
  the session does, the handler returns with the packet counted, and the number of calls
  it issued for the frame is at most \<open>num_lights\<close>.
\<close>

theorem partial_frame_skips_per_slot:
  assumes "i < num_lights self"
  shows "((\<exists>r g b. (r, g, b, i) \<in> set (frame_calls accepting self pkt))
            \<longleftrightarrow> i * 3 + 3 \<le> length (dmxData pkt))
       \<and> (i * 3 + 3 \<le> length (dmxData pkt)
            \<longrightarrow> light_input (dmxData pkt) i \<in> set (frame_calls accepting self pkt))
       \<and> error_log (on_dmx_data accepting self pkt) = error_log self
       \<and> packet_count (on_dmx_data ses self pkt) = packet_count self + 1
       \<and> length (frame_calls ses self pkt) \<le> num_lights self"
proof -
  let ?dmx = "dmxData pkt"
  have idx: "snd (snd (snd (light_input ?dmx j))) = j" for j
    by (simp add: light_input_def Let_def)
  have a: "(\<exists>r g b. (r, g, b, i) \<in> set (frame_calls accepting self pkt))
            \<longleftrightarrow> i * 3 + 3 \<le> length ?dmx"
  proof
    assume "\<exists>r g b. (r, g, b, i) \<in> set (frame_calls accepting self pkt)"
    then obtain r g b j where "(r, g, b, i) = light_input ?dmx j" "j * 3 + 3 \<le> length ?dmx"
      by (auto simp: frame_calls_accepting)
    moreover from this have "j = i" using idx[of j] by (metis snd_conv)
    ultimately show "i * 3 + 3 \<le> length ?dmx" by simp
  next
    assume c: "i * 3 + 3 \<le> length ?dmx"
    with assms have "light_input ?dmx i \<in> set (frame_calls accepting self pkt)"
      by (simp add: frame_calls_accepting)
    then show "\<exists>r g b. (r, g, b, i) \<in> set (frame_calls accepting self pkt)"
      by (auto simp: light_input_def Let_def)
  qed
  have b: "i * 3 + 3 \<le> length ?dmx
            \<longrightarrow> light_input ?dmx i \<in> set (frame_calls accepting self pkt)"
    using assms by (simp add: frame_calls_accepting)
  have c: "packet_count (on_dmx_data ses self pkt) = packet_count self + 1"
    by (simp add: on_dmx_data_def Let_def split: prod.splits option.splits)
  show ?thesis
    using a b c error_log_accepting[of self pkt] frame_calls_length[of ses self pkt] by blast
qed

theorem partial_frame_skips_per_slot_witness:
  "(0::nat) < num_lights \<lparr>packet_count = 0, num_lights = 2, set_input_calls = [], error_log = []\<rparr>
   \<and> (1::nat) < num_lights \<lparr>packet_count = 0, num_lights = 2, set_input_calls = [], error_log = []\<rparr>
   \<and> (\<exists>r g b. (r, g, b, 0) \<in> set (frame_calls accepting
          \<lparr>packet_count = 0, num_lights = 2, set_input_calls = [], error_log = []\<rparr>
          \<lparr>universe = 1, dmxData = [255, 0, 0, 9]\<rparr>))
   \<and> \<not> (\<exists>r g b. (r, g, b, 1) \<in> set (frame_calls accepting
          \<lparr>packet_count = 0, num_lights = 2, set_input_calls = [], error_log = []\<rparr>
          \<lparr>universe = 1, dmxData = [255, 0, 0, 9]\<rparr>))
   \<and> error_log (on_dmx_data accepting
          \<lparr>packet_count = 0, num_lights = 2, set_input_calls = [], error_log = []\<rparr>
          \<lparr>universe = 1, dmxData = [255, 0, 0, 9]\<rparr>) = []"
proof -
  let ?self = "\<lparr>packet_count = 0, num_lights = 2, set_input_calls = [], error_log = []\<rparr>"
  let ?pkt = "\<lparr>universe = 1, dmxData = [255, 0, 0, 9 :: 8 word]\<rparr>"
  have h0: "(0::nat) < num_lights ?self" and h1: "(1::nat) < num_lights ?self" by simp_all
  from partial_frame_skips_per_slot[OF h0, of ?pkt accepting]
  have a: "\<exists>r g b. (r, g, b, 0) \<in> set (frame_calls accepting ?self ?pkt)"
    and e: "error_log (on_dmx_data accepting ?self ?pkt) = []" by simp_all
  from partial_frame_skips_per_slot[OF h1, of ?pkt accepting]
  have b: "\<not> (\<exists>r g b. (r, g, b, 1) \<in> set (frame_calls accepting ?self ?pkt))" by simp
  show ?thesis using h0 h1 a b e by blast
qed

section \<open>Properties of stopping the session\<close>

text \<open>
  Claim C8. Whatever the underlying \<open>stop_stream\<close> does, \<open>stop_streaming\<close> returns
  normally; when \<open>stop_stream\<close> raises \<open>e\<close>, the failure is written to the error log
  and not raised.
\<close>

theorem stop_streaming_absorbs_failure:
  "(\<exists>self'. stop_streaming stop_stream self = Inr self')
   \<and> stop_streaming None self = Inr self
   \<and> stop_streaming (Some e) self =
         Inr (self\<lparr>error_log := error_log self @ [''Error stopping streaming: '' @ str_exn e]\<rparr>)"
  by (cases stop_stream) (simp_all add: stop_streaming_def)

section \<open>Properties of pairing\<close>

text \<open>
  The loop is recursive in its own result, so its equation is unfolded by hand, one
  iteration at a time.
\<close>

declare pair_loop.simps [simp del]

lemma link_button_not_pressedE:
  assumes "link_button_not_pressed resp"
  obtains item rest err d where
    "resp = Json (JArr (JObj item # rest))" "map_of item ''success'' = None"
    "map_of item ''error'' = Some (JObj err)" "map_of err ''description'' = Some (JStr d)"
    "not_pressed_text d"
proof -
  from assms obtain data where r: "resp = Json data"
    by (cases resp) (simp_all add: link_button_not_pressed_def)
  with assms obtain xs where d: "data = JArr xs"
    by (cases data) (simp_all add: link_button_not_pressed_def)
  with assms r obtain x rest where xs: "xs = x # rest"
    by (cases xs) (simp_all add: link_button_not_pressed_def)
  with assms r d obtain item where x: "x = JObj item"
    by (cases x) (simp_all add: link_button_not_pressed_def)
  from assms have body: "map_of item ''success'' = None \<and>
          (case map_of item ''error'' of
             Some (JObj err) \<Rightarrow>
               (case map_of err ''description'' of
                  Some (JStr d) \<Rightarrow> not_pressed_text d
                | _ \<Rightarrow> False)
           | _ \<Rightarrow> False)"
    by (simp add: link_button_not_pressed_def r d xs x)
  then obtain e where e: "map_of item ''error'' = Some e"
    by (cases "map_of item ''error''") simp_all
  with body obtain err where err: "e = JObj err"
    by (cases e) simp_all
  with body e obtain v where v: "map_of err ''description'' = Some v"
    by (cases "map_of err ''description''") simp_all
  with body e err obtain dd where dd: "v = JStr dd"
    by (cases v) simp_all
  with body e err v have "not_pressed_text dd" by simp
  with that r d xs x body e err v dd show thesis by simp
qed

lemma attempt_not_pressed:
  assumes "link_button_not_pressed resp"
  shows "\<exists>d. attempt resp = Retry (Some (JStr d)) []"
proof -
  from assms obtain item rest err d where
    "resp = Json (JArr (JObj item # rest))" "map_of item ''success'' = None"
    "map_of item ''error'' = Some (JObj err)" "map_of err ''description'' = Some (JStr d)"
    "not_pressed_text d"
    by (rule link_button_not_pressedE)
  then have "attempt resp = Retry (Some (JStr d)) []"
    by (simp add: attempt_def check_success_def check_error_def and_then_def not_pressed_text_def)
  then show ?thesis ..
qed

lemma attempt_Paired_truthy:
  assumes "attempt resp = Paired u c"
  shows "truthy u \<and> truthy c"
  using assms
  by (auto simp: attempt_def check_success_def and_then_def
      split: response.splits json.splits list.splits option.splits sum.splits if_splits prod.splits)

lemma pair_loop_not_pressed:
  assumes "\<forall>k. link_button_not_pressed (fst (env k))"
  shows "fst (pair_loop env deadline last_err dots w) = Inl pairing_failed
       \<and> deadline \<le> clock (snd (pair_loop env deadline last_err dots w))
       \<and> (\<exists>new. console (snd (pair_loop env deadline last_err dots w)) = console w @ new
              \<and> TimeoutBanner \<in> set new \<and> (\<forall>d. ErrorLine d \<notin> set new))"
  using assms
proof (induction env deadline last_err dots w rule: pair_loop.induct)
  case (1 env deadline last_err dots w)
  show ?case
  proof (cases "clock w < deadline")
    case False
    then show ?thesis
      by (subst (1 2 3) pair_loop.simps) (simp add: pairing_failed_def)
  next
    case True
    obtain resp took where e: "env (attempts w) = (resp, took)" by (cases "env (attempts w)")
    with "1.prems" have "link_button_not_pressed resp" by (metis fst_conv)
    then obtain d where a: "attempt resp = Retry (Some (JStr d)) []"
      using attempt_not_pressed by blast
    let ?w1 = "w\<lparr>clock := clock w + took, attempts := attempts w + 1\<rparr>"
    let ?dots1 = "(dots + 1) mod 4"
    let ?w2 = "?w1\<lparr>console := console ?w1 @ [] @ [Waiting ?dots1], clock := clock ?w1 + 2000\<rparr>"
    have step: "pair_loop env deadline last_err dots w = pair_loop env deadline (JStr d) ?dots1 ?w2"
      using True e a by (subst pair_loop.simps) (simp add: Let_def)
    have ih: "fst (pair_loop env deadline (JStr d) ?dots1 ?w2) = Inl pairing_failed
       \<and> deadline \<le> clock (snd (pair_loop env deadline (JStr d) ?dots1 ?w2))
       \<and> (\<exists>new. console (snd (pair_loop env deadline (JStr d) ?dots1 ?w2)) = console ?w2 @ new
              \<and> TimeoutBanner \<in> set new \<and> (\<forall>d. ErrorLine d \<notin> set new))"
      using "1.IH"[OF True refl e[symmetric] refl a refl refl] "1.prems" by simp
    then obtain new where n: "console (snd (pair_loop env deadline (JStr d) ?dots1 ?w2)) = console ?w2 @ new"
       "TimeoutBanner \<in> set new" "\<forall>d. ErrorLine d \<notin> set new" by blast
    have "console (snd (pair_loop env deadline last_err dots w)) = console w @ (Waiting ?dots1 # new)
        \<and> TimeoutBanner \<in> set (Waiting ?dots1 # new) \<and> (\<forall>d. ErrorLine d \<notin> set (Waiting ?dots1 # new))"
      using n step by simp
    then have "\<exists>new. console (snd (pair_loop env deadline last_err dots w)) = console w @ new
              \<and> TimeoutBanner \<in> set new \<and> (\<forall>d. ErrorLine d \<notin> set new)" by blast
    with ih step show ?thesis by simp
  qed
qed

lemma pair_loop_Inr_truthy:
  "fst (pair_loop env deadline last_err dots w) = Inr (u, c) \<Longrightarrow> truthy u \<and> truthy c"
proof (induction env deadline last_err dots w rule: pair_loop.induct)
  case (1 env deadline last_err dots w)
  show ?case
  proof (cases "clock w < deadline")
    case False
    with "1.prems" show ?thesis by (subst (asm) pair_loop.simps) (simp add: Let_def)
  next
    case True
    obtain resp took where e: "env (attempts w) = (resp, took)" by (cases "env (attempts w)")
    show ?thesis
    proof (cases "attempt resp")
      case (Paired u' c')
      with "1.prems" True e have "u' = u \<and> c' = c"
        by (subst (asm) pair_loop.simps) (simp add: Let_def)
      with Paired attempt_Paired_truthy show ?thesis by blast
    next
      case (Raised x)
      with "1.prems" True e show ?thesis by (subst (asm) pair_loop.simps) (simp add: Let_def)
    next
      case (Retry le printed)
      with "1.prems" True e
      have "fst (pair_loop env deadline (case le of None \<Rightarrow> last_err | Some d \<Rightarrow> d) ((dots + 1) mod 4)
               (w\<lparr>clock := clock w + took, attempts := attempts w + 1\<rparr>
                 \<lparr>console := console (w\<lparr>clock := clock w + took, attempts := attempts w + 1\<rparr>) @ printed @ [Waiting ((dots + 1) mod 4)],
                  clock := clock (w\<lparr>clock := clock w + took, attempts := attempts w + 1\<rparr>) + 2000\<rparr>)) = Inr (u, c)"
        by (subst (asm) pair_loop.simps) (simp add: Let_def)
      with "1.IH"[OF True refl e[symmetric] refl Retry refl refl] show ?thesis by simp
    qed
  qed
qed

lemma attempt_error_response:
  "attempt (error_response d) =
     Retry (Some (JStr d)) (if not_pressed_text d then [] else [ErrorLine d])"
  by (simp add: attempt_def error_response_def check_success_def check_error_def and_then_def
        not_pressed_text_def)

lemma error_lines_append: "error_lines (xs @ ys) = error_lines xs @ error_lines ys"
  by (simp add: error_lines_def)

lemma last_errors_append: "last_errors (xs @ ys) = last_errors xs @ last_errors ys"
  by (simp add: last_errors_def)

text \<open>
  What one pass through the loop body prints, and how the loop accumulates the passes:
  the error lines of a run are those of its requests in order, and a run that prints the
  timeout banner reports the value stored last.
\<close>

lemma check_error_printed:
  assumes "check_error item = Inr (le, printed)"
  shows "printed = [] \<or> (\<exists>d. printed = [ErrorLine d] \<and> \<not> not_pressed_text d)"
  using assms
  by (auto simp: check_error_def and_then_def not_pressed_text_def
      split: sum.splits if_splits json.splits)

lemma attempt_Retry_printed:
  assumes "attempt resp = Retry le printed"
  shows "printed = [] \<or> (\<exists>d. printed = [ErrorLine d] \<and> \<not> not_pressed_text d)"
proof (cases resp)
  case (RequestException m)
  with assms show ?thesis by (simp add: attempt_def)
next
  case (OtherException e)
  with assms show ?thesis by (simp add: attempt_def)
next
  case (Json data)
  show ?thesis
  proof (cases "\<exists>item rest. data = JArr (item # rest)")
    case False
    with assms Json have "printed = []"
      by (auto simp: attempt_def split: json.splits list.splits)
    then show ?thesis ..
  next
    case True
    then obtain item rest where d: "data = JArr (item # rest)" by blast
    with assms Json obtain le' where "check_error item = Inr (le', printed)"
      by (auto simp: attempt_def split: sum.splits option.splits prod.splits)
    then show ?thesis by (rule check_error_printed)
  qed
qed

lemma printed_facts:
  assumes "attempt resp = Retry le printed"
  shows "TimeoutBanner \<notin> set printed" and "last_errors printed = []"
    and "\<forall>d \<in> set (error_lines printed). \<not> not_pressed_text d"
  using attempt_Retry_printed[OF assms]
  by (auto simp: last_errors_def error_lines_def)

lemma surfaced_never_not_pressed: "\<forall>d \<in> set (surfaced resp). \<not> not_pressed_text d"
proof (cases "attempt resp")
  case (Retry le printed)
  then show ?thesis using printed_facts(3)[OF Retry] by (simp add: surfaced_def)
qed (simp_all add: surfaced_def)

lemma error_textE:
  assumes "error_text resp = Some d"
  obtains item rest err where
    "resp = Json (JArr (JObj item # rest))" "map_of item ''success'' = None"
    "map_of item ''error'' = Some (JObj err)"
    "map_of err ''description'' = Some (JStr d) \<or> (map_of err ''description'' = None \<and> d = [])"
proof -
  from assms obtain data where r: "resp = Json data"
    by (cases resp) (simp_all add: error_text_def)
  with assms obtain xs where da: "data = JArr xs"
    by (cases data) (simp_all add: error_text_def)
  with assms r obtain x rest where xs: "xs = x # rest"
    by (cases xs) (simp_all add: error_text_def)
  with assms r da obtain item where x: "x = JObj item"
    by (cases x) (simp_all add: error_text_def)
  from assms have s: "map_of item ''success'' = None"
    by (simp add: error_text_def r da xs x split: if_splits)
  with assms have body: "(case map_of item ''error'' of
               Some (JObj err) \<Rightarrow>
                 (case map_of err ''description'' of
                    None \<Rightarrow> Some []
                  | Some (JStr d) \<Rightarrow> Some d
                  | _ \<Rightarrow> None)
             | _ \<Rightarrow> None) = Some d"
    by (simp add: error_text_def r da xs x)
  then obtain e where e: "map_of item ''error'' = Some e"
    by (cases "map_of item ''error''") simp_all
  with body obtain err where err: "e = JObj err"
    by (cases e) simp_all
  from body e err have b2: "(case map_of err ''description'' of
                    None \<Rightarrow> Some []
                  | Some (JStr d) \<Rightarrow> Some d
                  | _ \<Rightarrow> None) = Some d" by simp
  have "map_of err ''description'' = Some (JStr d) \<or> (map_of err ''description'' = None \<and> d = [])"
  proof (cases "map_of err ''description''")
    case None
    with b2 show ?thesis by simp
  next
    case (Some v)
    with b2 show ?thesis by (cases v) simp_all
  qed
  with that r da xs x s e err show thesis by simp
qed

lemma attempt_error_text:
  assumes "error_text resp = Some d"
  shows "attempt resp = Retry (Some (JStr d)) (if not_pressed_text d then [] else [ErrorLine d])"
proof -
  from assms obtain item rest err where
    "resp = Json (JArr (JObj item # rest))" "map_of item ''success'' = None"
    "map_of item ''error'' = Some (JObj err)"
    "map_of err ''description'' = Some (JStr d) \<or> (map_of err ''description'' = None \<and> d = [])"
    by (rule error_textE)
  then show ?thesis
    by (auto simp: attempt_def check_success_def check_error_def and_then_def not_pressed_text_def)
qed

lemma reported_last: "last (x # xs) = last (y # ys) \<Longrightarrow> reported (x # xs) = reported (y # ys)"
  by (simp add: reported_def)

lemma reported_JNull: "reported (JNull # xs) = reported xs"
  by (cases xs) (simp_all add: reported_def)

lemma pair_loop_trace:
  "\<exists>n new.
      attempts (snd (pair_loop env deadline last_err dots w)) = attempts w + n
    \<and> console (snd (pair_loop env deadline last_err dots w)) = console w @ new
    \<and> error_lines new =
        concat (map (\<lambda>k. surfaced (fst (env k))) [attempts w ..< attempts w + n])
    \<and> (TimeoutBanner \<in> set new \<longrightarrow>
          fst (pair_loop env deadline last_err dots w) = Inl pairing_failed
        \<and> last_errors new =
            reported (last_err #
              concat (map (\<lambda>k. recorded (fst (env k))) [attempts w ..< attempts w + n])))"
proof (induction env deadline last_err dots w rule: pair_loop.induct)
  case (1 env deadline last_err dots w)
  let ?r = "pair_loop env deadline last_err dots w"
  show ?case
  proof (cases "clock w < deadline")
    case False
    let ?new = "[TimeoutBanner] @ (if truthy last_err then [LastError last_err] else []) @ [TryAgainHint]"
    have r: "?r = (Inl pairing_failed, w\<lparr>console := console w @ ?new\<rparr>)"
      using False by (subst pair_loop.simps) simp
    have "attempts (snd ?r) = attempts w + 0" by (simp add: r)
    moreover have "console (snd ?r) = console w @ ?new" by (simp add: r)
    moreover have "error_lines ?new =
        concat (map (\<lambda>k. surfaced (fst (env k))) [attempts w ..< attempts w + 0])"
      by (simp add: error_lines_def)
    moreover have "fst ?r = Inl pairing_failed" by (simp add: r)
    moreover have "last_errors ?new =
            reported (last_err #
              concat (map (\<lambda>k. recorded (fst (env k))) [attempts w ..< attempts w + 0]))"
      by (simp add: last_errors_def reported_def)
    ultimately show ?thesis by blast
  next
    case True
    obtain resp took where e: "env (attempts w) = (resp, took)" by (cases "env (attempts w)")
    let ?w1 = "w\<lparr>clock := clock w + took, attempts := attempts w + 1\<rparr>"
    have upt1: "[attempts w ..< attempts w + 1] = [attempts w]" by simp
    show ?thesis
    proof (cases "attempt resp")
      case (Paired u c)
      let ?new = "[PairingSuccess u c]"
      have r: "?r = (Inr (u, c), ?w1\<lparr>console := console ?w1 @ ?new\<rparr>)"
        using True e Paired by (subst pair_loop.simps) (simp add: Let_def)
      have "attempts (snd ?r) = attempts w + 1" by (simp add: r)
      moreover have "console (snd ?r) = console w @ ?new" by (simp add: r)
      moreover have "error_lines ?new =
          concat (map (\<lambda>k. surfaced (fst (env k))) [attempts w ..< attempts w + 1])"
        unfolding upt1 using e Paired by (simp add: error_lines_def surfaced_def)
      moreover have "TimeoutBanner \<notin> set ?new" by simp
      ultimately show ?thesis by blast
    next
      case (Raised x)
      have r: "?r = (Inl x, ?w1)"
        using True e Raised by (subst pair_loop.simps) (simp add: Let_def)
      have "attempts (snd ?r) = attempts w + 1" by (simp add: r)
      moreover have "console (snd ?r) = console w @ []" by (simp add: r)
      moreover have "error_lines [] =
          concat (map (\<lambda>k. surfaced (fst (env k))) [attempts w ..< attempts w + 1])"
        unfolding upt1 using e Raised by (simp add: error_lines_def surfaced_def)
      moreover have "TimeoutBanner \<notin> set []" by simp
      ultimately show ?thesis by blast
    next
      case (Retry le printed)
      let ?dots1 = "(dots + 1) mod 4"
      let ?w2 = "?w1\<lparr>console := console ?w1 @ printed @ [Waiting ?dots1], clock := clock ?w1 + 2000\<rparr>"
      let ?le2 = "case le of None \<Rightarrow> last_err | Some d \<Rightarrow> d"
      let ?next = "pair_loop env deadline ?le2 ?dots1 ?w2"
      have step: "?r = ?next"
        using True e Retry by (subst pair_loop.simps) (simp add: Let_def)
      have aw2: "attempts ?w2 = attempts w + 1" by simp
      have cw2: "console ?w2 = console w @ printed @ [Waiting ?dots1]" by simp
      from "1.IH"[OF True refl e[symmetric] refl Retry refl refl]
      obtain n new where ih:
        "attempts (snd ?next) = attempts ?w2 + n"
        "console (snd ?next) = console ?w2 @ new"
        "error_lines new =
            concat (map (\<lambda>k. surfaced (fst (env k))) [attempts ?w2 ..< attempts ?w2 + n])"
        "TimeoutBanner \<in> set new \<longrightarrow>
            fst ?next = Inl pairing_failed
          \<and> last_errors new =
              reported (?le2 #
                concat (map (\<lambda>k. recorded (fst (env k))) [attempts ?w2 ..< attempts ?w2 + n]))"
        by blast
      let ?new = "printed @ [Waiting ?dots1] @ new"
      let ?rest = "[attempts w + 1 ..< attempts w + 1 + n]"
      have upt: "[attempts w ..< attempts w + Suc n] = attempts w # ?rest"
        by (simp add: upt_conv_Cons)
      have s0: "surfaced (fst (env (attempts w))) = error_lines printed"
        using e Retry by (simp add: surfaced_def)
      have r0: "recorded (fst (env (attempts w))) = (case le of None \<Rightarrow> [] | Some v \<Rightarrow> [v])"
        using e Retry by (simp add: recorded_def)
      have c1: "attempts (snd ?r) = attempts w + Suc n"
        unfolding step ih(1) aw2 by simp
      have c2: "console (snd ?r) = console w @ ?new"
        unfolding step ih(2) cw2 by simp
      have elw: "error_lines [Waiting ?dots1] = []" by (simp add: error_lines_def)
      have ih3: "error_lines new = concat (map (\<lambda>k. surfaced (fst (env k))) ?rest)"
        using ih(3) by (simp only: aw2)
      have ih4: "TimeoutBanner \<in> set new \<longrightarrow>
            fst ?next = Inl pairing_failed
          \<and> last_errors new =
              reported (?le2 # concat (map (\<lambda>k. recorded (fst (env k))) ?rest))"
        using ih(4) by (simp only: aw2)
      have c3: "error_lines ?new =
          concat (map (\<lambda>k. surfaced (fst (env k))) [attempts w ..< attempts w + Suc n])"
      proof -
        have "error_lines ?new = error_lines printed @ error_lines new"
          by (simp only: error_lines_append elw append_Nil)
        also have "\<dots> = surfaced (fst (env (attempts w)))
                         @ concat (map (\<lambda>k. surfaced (fst (env k))) ?rest)"
          by (simp only: s0 ih3)
        also have "\<dots> = concat (map (\<lambda>k. surfaced (fst (env k))) (attempts w # ?rest))"
          by (simp only: list.map concat.simps)
        finally show ?thesis by (simp only: upt)
      qed
      have c4: "fst ?r = Inl pairing_failed
        \<and> last_errors ?new =
            reported (last_err #
              concat (map (\<lambda>k. recorded (fst (env k))) [attempts w ..< attempts w + Suc n]))"
        if t: "TimeoutBanner \<in> set ?new"
      proof -
        from t printed_facts(1)[OF Retry] have "TimeoutBanner \<in> set new" by simp
        with ih4 have f: "fst ?next = Inl pairing_failed"
          and l: "last_errors new =
              reported (?le2 # concat (map (\<lambda>k. recorded (fst (env k))) ?rest))"
          by blast+
        have lw: "last_errors [Waiting ?dots1] = []" by (simp add: last_errors_def)
        have "last_errors ?new = last_errors new"
          by (simp only: last_errors_append printed_facts(2)[OF Retry] lw append_Nil)
        also note l
        also have "reported (?le2 # concat (map (\<lambda>k. recorded (fst (env k))) ?rest)) =
              reported (last_err # (recorded (fst (env (attempts w)))
                                     @ concat (map (\<lambda>k. recorded (fst (env k))) ?rest)))"
          by (rule reported_last) (cases le; simp add: r0)
        also have "recorded (fst (env (attempts w)))
                     @ concat (map (\<lambda>k. recorded (fst (env k))) ?rest) =
                   concat (map (\<lambda>k. recorded (fst (env k))) (attempts w # ?rest))"
          by (simp only: list.map concat.simps)
        finally have "last_errors ?new =
            reported (last_err #
              concat (map (\<lambda>k. recorded (fst (env k))) [attempts w ..< attempts w + Suc n]))"
          by (simp only: upt)
        moreover have "fst ?r = Inl pairing_failed" using f by (simp only: step)
        ultimately show ?thesis by blast
      qed
      from c1 c2 c3 c4 show ?thesis by blast
    qed
  qed
qed

text \<open>
  Claim C4. If every pairing request is answered "link button not pressed", then
  \<open>create_entertainment_user\<close> ends by raising its failure after printing the timeout
  banner, and the clock then reads at least 30 seconds (30000 ms) more than when the
  function was entered: the failure comes when the window has elapsed, not before. For
  every bridge, when the function returns a pair, both the user name and the client key
  are truthy, so no partial credential is returned.
\<close>

theorem pairing_times_out_after_window:
  assumes "\<forall>k. link_button_not_pressed (fst (env k))"
  shows "fst (create_entertainment_user env w) = Inl pairing_failed
       \<and> clock w + 30000 \<le> clock (snd (create_entertainment_user env w))
       \<and> TimeoutBanner \<in> set (console (snd (create_entertainment_user env w)))
       \<and> (\<forall>env' w' u c. fst (create_entertainment_user env' w') = Inr (u, c)
             \<longrightarrow> truthy u \<and> truthy c)"
proof -
  let ?w1 = "w\<lparr>console := console w @ [PairingBanner]\<rparr>"
  have c: "create_entertainment_user env w = pair_loop env (clock w + 30000) JNull 0 ?w1"
    by (simp add: create_entertainment_user_def Let_def)
  from pair_loop_not_pressed[OF assms, of "clock w + 30000" JNull 0 ?w1]
  have "fst (create_entertainment_user env w) = Inl pairing_failed"
    and "clock w + 30000 \<le> clock (snd (create_entertainment_user env w))"
    and "TimeoutBanner \<in> set (console (snd (create_entertainment_user env w)))"
    by (auto simp: c)
  moreover have "truthy u \<and> truthy c"
    if "fst (create_entertainment_user env' w') = Inr (u, c)" for env' w' u c
    using that pair_loop_Inr_truthy
    by (simp add: create_entertainment_user_def Let_def)
  ultimately show ?thesis by blast
qed

theorem pairing_times_out_after_window_witness:
  "(\<forall>k. link_button_not_pressed (fst (never_pressed k)))
   \<and> fst (create_entertainment_user never_pressed fresh_world) = Inl pairing_failed
   \<and> 30000 \<le> clock (snd (create_entertainment_user never_pressed fresh_world))
   \<and> fst (create_entertainment_user pressed_on_second fresh_world) = Inr (JStr ''user-1'', JStr ''key-1'')
   \<and> truthy (JStr ''user-1'') \<and> truthy (JStr ''key-1'')"
proof -
  have h: "\<forall>k. link_button_not_pressed (fst (never_pressed k))"
    by (simp add: never_pressed_def error_response_def link_button_not_pressed_def
        not_pressed_text_def lower_def lower_char_def)
  have p: "fst (create_entertainment_user pressed_on_second fresh_world) = Inr (JStr ''user-1'', JStr ''key-1'')"
    by (simp add: create_entertainment_user_def pressed_on_second_def fresh_world_def Let_def
        pair_loop.simps attempt_def error_response_def success_response_def
        check_success_def check_error_def and_then_def lower_def lower_char_def)
  note t = pairing_times_out_after_window[OF h, of fresh_world]
  from t have a: "fst (create_entertainment_user never_pressed fresh_world) = Inl pairing_failed"
    by blast
  from t have b: "30000 \<le> clock (snd (create_entertainment_user never_pressed fresh_world))"
    by (simp add: fresh_world_def)
  from t p have c: "truthy (JStr ''user-1'') \<and> truthy (JStr ''key-1'')" by blast
  show ?thesis using h a b p c by blast
qed

text \<open>
  Claim C5, as amended. For every bridge, the error lines printed during the loop are
  those of the requests made, in order, and none of them is a "link button not pressed"
  description: such a response is never printed as a per-attempt error. Every error
  response is stored in \<open>last_err\<close> with its description, "link button not pressed"
  included, and every other error response is also printed when it is received; a
  request exception is stored with its text. When the run ends in the timeout, the error
  reported with the failure is the last value stored, if it is truthy: the last error
  recorded, whatever its kind.
\<close>

theorem last_recorded_error_reported:
  "(\<exists>n new.
        attempts (snd (create_entertainment_user env w)) = attempts w + n
      \<and> console (snd (create_entertainment_user env w)) = console w @ [PairingBanner] @ new
      \<and> error_lines new =
          concat (map (\<lambda>k. surfaced (fst (env k))) [attempts w ..< attempts w + n])
      \<and> (TimeoutBanner \<in> set new \<longrightarrow>
            fst (create_entertainment_user env w) = Inl pairing_failed
          \<and> last_errors new =
              reported (concat (map (\<lambda>k. recorded (fst (env k))) [attempts w ..< attempts w + n]))))
   \<and> (\<forall>d \<in> set (surfaced resp). \<not> not_pressed_text d)
   \<and> (link_button_not_pressed resp \<longrightarrow> surfaced resp = [] \<and> (\<exists>d. recorded resp = [JStr d]))
   \<and> (error_text resp = Some d \<longrightarrow>
         recorded resp = [JStr d] \<and> surfaced resp = (if not_pressed_text d then [] else [d]))
   \<and> recorded (RequestException m) = [JStr m] \<and> surfaced (RequestException m) = []"
proof -
  let ?w1 = "w\<lparr>console := console w @ [PairingBanner]\<rparr>"
  let ?r = "pair_loop env (clock w + 30000) JNull 0 ?w1"
  have c: "create_entertainment_user env w = ?r"
    by (simp add: create_entertainment_user_def Let_def)
  from pair_loop_trace[of env "clock w + 30000" JNull 0 ?w1]
  obtain n new where t:
      "attempts (snd ?r) = attempts ?w1 + n"
      "console (snd ?r) = console ?w1 @ new"
      "error_lines new =
          concat (map (\<lambda>k. surfaced (fst (env k))) [attempts ?w1 ..< attempts ?w1 + n])"
      "TimeoutBanner \<in> set new \<longrightarrow>
            fst ?r = Inl pairing_failed
          \<and> last_errors new =
              reported (JNull #
                concat (map (\<lambda>k. recorded (fst (env k))) [attempts ?w1 ..< attempts ?w1 + n]))"
    by blast
  have aw: "attempts ?w1 = attempts w" and cw: "console ?w1 = console w @ [PairingBanner]"
    by simp_all
  have p1: "attempts (snd (create_entertainment_user env w)) = attempts w + n"
    using t(1) by (simp only: c aw)
  have p2: "console (snd (create_entertainment_user env w)) = console w @ [PairingBanner] @ new"
    using t(2) by (simp only: c cw append_assoc)
  have p3: "error_lines new =
          concat (map (\<lambda>k. surfaced (fst (env k))) [attempts w ..< attempts w + n])"
    using t(3) by (simp only: aw)
  have p4: "TimeoutBanner \<in> set new \<longrightarrow>
            fst (create_entertainment_user env w) = Inl pairing_failed
          \<and> last_errors new =
              reported (concat (map (\<lambda>k. recorded (fst (env k))) [attempts w ..< attempts w + n]))"
    using t(4) by (simp only: c aw reported_JNull)
  from p1 p2 p3 p4 have loop: "\<exists>n new.
        attempts (snd (create_entertainment_user env w)) = attempts w + n
      \<and> console (snd (create_entertainment_user env w)) = console w @ [PairingBanner] @ new
      \<and> error_lines new =
          concat (map (\<lambda>k. surfaced (fst (env k))) [attempts w ..< attempts w + n])
      \<and> (TimeoutBanner \<in> set new \<longrightarrow>
            fst (create_entertainment_user env w) = Inl pairing_failed
          \<and> last_errors new =
              reported (concat (map (\<lambda>k. recorded (fst (env k))) [attempts w ..< attempts w + n])))"
    by blast
  have q1: "\<forall>d \<in> set (surfaced resp). \<not> not_pressed_text d"
    by (rule surfaced_never_not_pressed)
  have q2: "surfaced resp = [] \<and> (\<exists>d. recorded resp = [JStr d])" if "link_button_not_pressed resp"
  proof -
    from that obtain d where "attempt resp = Retry (Some (JStr d)) []"
      using attempt_not_pressed by blast
    then have "surfaced resp = []" and "recorded resp = [JStr d]"
      by (simp_all add: surfaced_def recorded_def error_lines_def)
    then show ?thesis by blast
  qed
  have q3: "recorded resp = [JStr d] \<and> surfaced resp = (if not_pressed_text d then [] else [d])"
    if "error_text resp = Some d"
    using attempt_error_text[OF that] by (simp add: surfaced_def recorded_def error_lines_def)
  have q4: "recorded (RequestException m) = [JStr m] \<and> surfaced (RequestException m) = []"
    by (simp add: surfaced_def recorded_def attempt_def error_lines_def)
  from loop q1 q2 q3 q4 show ?thesis by blast
qed

theorem last_recorded_error_reported_witness:
  "console (snd (create_entertainment_user unauthorized_then_unreachable fresh_world)) =
     [PairingBanner, ErrorLine ''unauthorized user'', Waiting 1, Waiting 2, TimeoutBanner,
      LastError (JStr ''connection refused''), TryAgainHint]
   \<and> (\<exists>n new.
         attempts (snd (create_entertainment_user unauthorized_then_unreachable fresh_world)) =
           attempts fresh_world + n
       \<and> console (snd (create_entertainment_user unauthorized_then_unreachable fresh_world)) =
           console fresh_world @ [PairingBanner] @ new
       \<and> TimeoutBanner \<in> set new
       \<and> fst (create_entertainment_user unauthorized_then_unreachable fresh_world) = Inl pairing_failed
       \<and> error_lines new =
           concat (map (\<lambda>k. surfaced (fst (unauthorized_then_unreachable k)))
                     [attempts fresh_world ..< attempts fresh_world + n])
       \<and> last_errors new =
           reported (concat (map (\<lambda>k. recorded (fst (unauthorized_then_unreachable k)))
                               [attempts fresh_world ..< attempts fresh_world + n])))
   \<and> error_text (fst (unauthorized_then_unreachable 0)) = Some ''unauthorized user''
   \<and> recorded (fst (unauthorized_then_unreachable 0)) = [JStr ''unauthorized user'']
   \<and> surfaced (fst (unauthorized_then_unreachable 0)) = [''unauthorized user'']
   \<and> \<not> not_pressed_text ''unauthorized user''
   \<and> link_button_not_pressed (error_response ''link button not pressed'')
   \<and> surfaced (error_response ''link button not pressed'') = []"
proof -
  let ?env = unauthorized_then_unreachable
  let ?r = "create_entertainment_user ?env fresh_world"
  note t = last_recorded_error_reported[of ?env fresh_world "fst (?env 0)" "''unauthorized user''"]
  note t' = last_recorded_error_reported[of ?env fresh_world "error_response ''link button not pressed''"]
  have ev: "console (snd ?r) =
     [PairingBanner, ErrorLine ''unauthorized user'', Waiting 1, Waiting 2, TimeoutBanner,
      LastError (JStr ''connection refused''), TryAgainHint]"
    by (simp add: create_entertainment_user_def unauthorized_then_unreachable_def fresh_world_def
        Let_def pair_loop.simps attempt_def check_success_def check_error_def and_then_def
        lower_def lower_char_def)
  have h1: "error_text (fst (?env 0)) = Some ''unauthorized user''"
    by (simp add: unauthorized_then_unreachable_def error_text_def)
  have h2: "link_button_not_pressed (error_response ''link button not pressed'')"
    by (simp add: error_response_def link_button_not_pressed_def not_pressed_text_def
        lower_def lower_char_def)
  have np: "\<not> not_pressed_text ''unauthorized user''"
    by (simp add: not_pressed_text_def lower_def lower_char_def)
  from t obtain n new where l:
      "attempts (snd ?r) = attempts fresh_world + n"
      "console (snd ?r) = console fresh_world @ [PairingBanner] @ new"
      "error_lines new = concat (map (\<lambda>k. surfaced (fst (?env k)))
                     [attempts fresh_world ..< attempts fresh_world + n])"
      "TimeoutBanner \<in> set new \<longrightarrow>
            fst ?r = Inl pairing_failed
          \<and> last_errors new =
              reported (concat (map (\<lambda>k. recorded (fst (?env k)))
                     [attempts fresh_world ..< attempts fresh_world + n]))"
    by blast
  from l(2) ev have "new = [ErrorLine ''unauthorized user'', Waiting 1, Waiting 2, TimeoutBanner,
      LastError (JStr ''connection refused''), TryAgainHint]"
    by (simp add: fresh_world_def)
  then have tb: "TimeoutBanner \<in> set new" by simp
  with l have loop: "\<exists>n new.
         attempts (snd ?r) = attempts fresh_world + n
       \<and> console (snd ?r) = console fresh_world @ [PairingBanner] @ new
       \<and> TimeoutBanner \<in> set new
       \<and> fst ?r = Inl pairing_failed
       \<and> error_lines new =
           concat (map (\<lambda>k. surfaced (fst (?env k)))
                     [attempts fresh_world ..< attempts fresh_world + n])
       \<and> last_errors new =
           reported (concat (map (\<lambda>k. recorded (fst (?env k)))
                               [attempts fresh_world ..< attempts fresh_world + n]))"
    by blast
  from t h1 np have a: "recorded (fst (?env 0)) = [JStr ''unauthorized user'']"
    and b: "surfaced (fst (?env 0)) = [''unauthorized user'']" by simp_all
  from t' h2 have c: "surfaced (error_response ''link button not pressed'') = []" by blast
  from ev loop h1 a b np h2 c show ?thesis by blast
qed


text \<open>
  The original wording of C5 has the reported error be the last error other than
  "link button not pressed". A bridge that first answers "unauthorized user" and then
  "link button not pressed" shows otherwise: the error reported with the timeout is
  "link button not pressed".
\<close>

theorem last_error_not_last_other_error_counterexample:
  "fst (create_entertainment_user unauthorized_then_not_pressed fresh_world) = Inl pairing_failed
   \<and> console (snd (create_entertainment_user unauthorized_then_not_pressed fresh_world)) =
       [PairingBanner, ErrorLine ''unauthorized user'', Waiting 1, Waiting 2, TimeoutBanner,
        LastError (JStr ''link button not pressed''), TryAgainHint]
   \<and> LastError (JStr ''unauthorized user'')
       \<notin> set (console (snd (create_entertainment_user unauthorized_then_not_pressed fresh_world)))"
  by (simp add: create_entertainment_user_def unauthorized_then_not_pressed_def fresh_world_def
        Let_def pair_loop.simps attempt_error_response not_pressed_text_def lower_def lower_char_def)

section \<open>Properties of credential resolution\<close>

text \<open>
  Claim C7. When the stored configuration has a truthy \<open>app_key\<close> and no truthy
  \<open>clientkey\<close>, \<open>ensure_app_key\<close> without forced re-pairing raises
  "Missing clientkey. Run with --re-pair", whatever the command-line token is. It does
  not pair: no request is sent, the clock does not move, and the pairing banner is not
  printed; the only output is the notice that asks for \<open>--re-pair\<close>.
\<close>

theorem missing_clientkey_never_repaired:
  assumes "truthy (cfg_get cfg ''app_key'')" and "\<not> truthy (cfg_get cfg ''clientkey'')"
  shows "ensure_app_key env utcnow w app_key cfg False =
           (Inl (RuntimeError ''Missing clientkey. Run with --re-pair''),
            w\<lparr>console := console w @ [MissingClientkeyNotice]\<rparr>)
       \<and> attempts (snd (ensure_app_key env utcnow w app_key cfg False)) = attempts w
       \<and> clock (snd (ensure_app_key env utcnow w app_key cfg False)) = clock w
       \<and> PairingBanner \<notin> set (drop (length (console w))
                                  (console (snd (ensure_app_key env utcnow w app_key cfg False))))"
  using assms by (simp add: ensure_app_key_def py_or_def Let_def)

theorem missing_clientkey_never_repaired_witness:
  "truthy (cfg_get [''app_key'' \<mapsto> JStr ''token-1''] ''app_key'')
   \<and> \<not> truthy (cfg_get [''app_key'' \<mapsto> JStr ''token-1''] ''clientkey'')
   \<and> ensure_app_key pressed_on_second ''2024-01-01T00:00:00'' fresh_world JNull
        [''app_key'' \<mapsto> JStr ''token-1''] False =
        (Inl (RuntimeError ''Missing clientkey. Run with --re-pair''),
         \<lparr>clock = 0, attempts = 0, console = [MissingClientkeyNotice]\<rparr>)"
proof -
  have h1: "truthy (cfg_get [''app_key'' \<mapsto> JStr ''token-1''] ''app_key'')"
    and h2: "\<not> truthy (cfg_get [''app_key'' \<mapsto> JStr ''token-1''] ''clientkey'')"
    by (simp_all add: cfg_get_def)
  from missing_clientkey_never_repaired[OF h1 h2, of pressed_on_second "''2024-01-01T00:00:00''" fresh_world JNull]
  show ?thesis using h1 h2 by (simp add: fresh_world_def)
qed

text \<open>
  Claim C10. When a truthy token is given on the command line, re-pairing is not forced
  and the stored configuration has a truthy \<open>clientkey\<close>, \<open>ensure_app_key\<close> returns the
  command-line token with the stored client key and the configuration unchanged,
  whatever token the configuration stores: nothing relates the two.
\<close>

theorem command_line_token_with_stored_clientkey:
  assumes "truthy app_key" and "truthy (cfg_get cfg ''clientkey'')"
  shows "ensure_app_key env utcnow w app_key cfg False =
           (Inr (app_key, cfg_get cfg ''clientkey'', cfg), w)"
  using assms by (simp add: ensure_app_key_def py_or_def Let_def)

theorem command_line_token_with_stored_clientkey_witness:
  "truthy (JStr ''token-from-cli'')
   \<and> truthy (cfg_get [''app_key'' \<mapsto> JStr ''token-1'', ''clientkey'' \<mapsto> JStr ''key-1''] ''clientkey'')
   \<and> fst (ensure_app_key never_pressed ''2024-01-01T00:00:00'' fresh_world (JStr ''token-from-cli'')
        [''app_key'' \<mapsto> JStr ''token-1'', ''clientkey'' \<mapsto> JStr ''key-1''] False) =
        Inr (JStr ''token-from-cli'', JStr ''key-1'',
             [''app_key'' \<mapsto> JStr ''token-1'', ''clientkey'' \<mapsto> JStr ''key-1''])"
proof -
  have h1: "truthy (JStr ''token-from-cli'')" by simp
  have h2: "truthy (cfg_get [''app_key'' \<mapsto> JStr ''token-1'', ''clientkey'' \<mapsto> JStr ''key-1''] ''clientkey'')"
    by (simp add: cfg_get_def)
  from command_line_token_with_stored_clientkey[OF h1 h2, of never_pressed "''2024-01-01T00:00:00''" fresh_world]
  show ?thesis using h1 h2 by (simp add: cfg_get_def)
qed

section \<open>Properties of bridge information\<close>

lemma swversion_try:
  "bridge_info_try queried = Inr (Some info) \<Longrightarrow> info_swversion info = 1962097030"
  by (auto simp: bridge_info_try_def and_then_def split: sum.splits if_splits)

text \<open>
  Claim C9. \<open>get_bridge_info\<close> returns a record for every outcome of the query. When
  the query raises, when anything in the \<open>try\<close> block raises, and when the answer has no
  data, the record is the fixed fallback with its placeholder identifiers. In every case
  the software version is the constant 1962097030.
\<close>

theorem get_bridge_info_total:
  "info_swversion (get_bridge_info queried) = 1962097030
   \<and> get_bridge_info (Inl e) = fallback_info
   \<and> (bridge_info_try queried = Inl e' \<longrightarrow> get_bridge_info queried = fallback_info)
   \<and> (bridge_info_try queried = Inr None \<longrightarrow> get_bridge_info queried = fallback_info)
   \<and> fallback_info =
        \<lparr>info_id = JStr ''default-bridge-id'', info_rid = JStr ''default-bridge-rid'',
         info_name = JStr ''Hue Bridge'', info_swversion = 1962097030,
         info_hue_app_id = JStr ''default-app-id''\<rparr>"
proof -
  have "info_swversion (get_bridge_info queried) = 1962097030"
  proof (cases "bridge_info_try queried")
    case (Inl a)
    then show ?thesis by (simp add: get_bridge_info_def fallback_info_def)
  next
    case (Inr b)
    then show ?thesis
      by (cases b) (simp_all add: get_bridge_info_def fallback_info_def swversion_try)
  qed
  moreover have "get_bridge_info (Inl e) = fallback_info"
    by (simp add: get_bridge_info_def bridge_info_try_def and_then_def)
  ultimately show ?thesis
    by (simp add: get_bridge_info_def fallback_info_def)
qed

theorem get_bridge_info_total_witness:
  "bridge_info_try (Inr (JArr [])) = Inl AttributeError
   \<and> get_bridge_info (Inr (JArr [])) = fallback_info
   \<and> bridge_info_try (Inr (JObj [(''data'', JArr [])])) = Inr None
   \<and> get_bridge_info (Inr (JObj [(''data'', JArr [])])) = fallback_info
   \<and> get_bridge_info (Inr (JObj [(''data'',
         JArr [JObj [(''id'', JStr ''b-1''), (''swversion'', JNum 1970000000)]])])) =
        \<lparr>info_id = JStr ''b-1'', info_rid = JStr ''b-1'',
         info_name = JStr ''Hue Bridge'', info_swversion = 1962097030,
         info_hue_app_id = JStr ''b-1''\<rparr>"
proof -
  have h1: "bridge_info_try (Inr (JArr [])) = Inl AttributeError"
    by (simp add: bridge_info_try_def and_then_def)
  have h2: "bridge_info_try (Inr (JObj [(''data'', JArr [])])) = Inr None"
    by (simp add: bridge_info_try_def and_then_def)
  have v: "get_bridge_info (Inr (JObj [(''data'',
         JArr [JObj [(''id'', JStr ''b-1''), (''swversion'', JNum 1970000000)]])])) =
        \<lparr>info_id = JStr ''b-1'', info_rid = JStr ''b-1'',
         info_name = JStr ''Hue Bridge'', info_swversion = 1962097030,
         info_hue_app_id = JStr ''b-1''\<rparr>"
    by (simp add: get_bridge_info_def bridge_info_try_def and_then_def py_or_def)
  from get_bridge_info_total[of "Inr (JArr [])" _ AttributeError] h1
  have a: "get_bridge_info (Inr (JArr [])) = fallback_info" by blast
  from get_bridge_info_total[of "Inr (JObj [(''data'', JArr [])])"] h2
  have b: "get_bridge_info (Inr (JObj [(''data'', JArr [])])) = fallback_info" by blast
  show ?thesis using h1 h2 a b v by blast
qed

section \<open>Properties of area selection\<close>

text \<open>
  Claim C1. The selection loop compares the requested text with the identifier of each
  area, in lower case, in both of its branches, and never with the display name. For a
  catalog whose first area has identifier \<open>3f1e\<close> and display name "Living Room",
  "living room" is not found, although the claim has it select that area; the identifier
  in another case is found, and the prefix "Liv" is not found.
\<close>

theorem display_name_is_not_matched:
  "select_area (Inr living_room_catalog) ''living room'' =
     Inl (ValueError (''Entertainment area '' @ quoted ''living room'' @ '' not found''))
   \<and> select_area (Inr living_room_catalog) ''3F1E'' =
     Inr (\<lparr>config_name = ''Living Room'', channels = [0, 1]\<rparr>, ''3F1E'')
   \<and> select_area (Inr living_room_catalog) ''Liv'' =
     Inl (ValueError (''Entertainment area '' @ quoted ''Liv'' @ '' not found''))"
  by (simp add: select_area_def living_room_catalog_def lower_def lower_char_def)

text \<open>
  Claim C6, as amended. The empty catalog is reported on its own (exit code 6, "no
  areas found") only on the listing branch of \<open>main\<close>, taken when \<open>--list\<close> is given or
  no area is requested; there a catalog that is not empty ends with exit code 0. When an
  area is requested, an empty catalog fails exactly as a catalog without a matching
  identifier does: exit code 7 and the same "not found" message, logged by the
  constructor and by \<open>main\<close>.
\<close>

theorem empty_catalog_distinct_only_when_listing:
  "(list_flag \<or> area = None \<or> area = Some [] \<longrightarrow>
      main_areas list_flag area (Inr []) area_names run = (6, [AreasHeader, NoAreasFound]))
   \<and> (list_flag \<or> area = None \<or> area = Some [] \<longrightarrow> entertainment_configs \<noteq> [] \<longrightarrow>
      fst (main_areas list_flag area (Inr entertainment_configs) area_names run) = 0)
   \<and> (a \<noteq> [] \<longrightarrow>
      main_areas False (Some a) (Inr []) area_names run =
        (7, [LogError (''Failed to get entertainment configurations: Entertainment area '' @ quoted a @ '' not found''),
             LogError (''Failed to start bridge: Entertainment area '' @ quoted a @ '' not found'')]))
   \<and> (a \<noteq> [] \<longrightarrow> find_area entertainment_configs a = None \<longrightarrow>
      main_areas False (Some a) (Inr entertainment_configs) area_names run =
        (7, [LogError (''Failed to get entertainment configurations: Entertainment area '' @ quoted a @ '' not found''),
             LogError (''Failed to start bridge: Entertainment area '' @ quoted a @ '' not found'')]))"
  by (auto simp: main_areas_def list_areas_def start_bridge_def select_area_def split: option.splits)

theorem empty_catalog_distinct_only_when_listing_witness:
  "main_areas True (Some ''Kitchen'') (Inr []) no_names runs_until_stopped = (6, [AreasHeader, NoAreasFound])
   \<and> main_areas False None (Inr []) no_names runs_until_stopped = (6, [AreasHeader, NoAreasFound])
   \<and> living_room_catalog \<noteq> []
   \<and> fst (main_areas True (Some ''Kitchen'') (Inr living_room_catalog) no_names runs_until_stopped) = 0
   \<and> ''Kitchen'' \<noteq> []
   \<and> find_area living_room_catalog ''Kitchen'' = None
   \<and> main_areas False (Some ''Kitchen'') (Inr []) no_names runs_until_stopped =
        main_areas False (Some ''Kitchen'') (Inr living_room_catalog) no_names runs_until_stopped"
proof -
  have h1: "living_room_catalog \<noteq> []" by (simp add: living_room_catalog_def)
  have h2: "''Kitchen'' \<noteq> []" by simp
  have h3: "find_area living_room_catalog ''Kitchen'' = None"
    by (simp add: living_room_catalog_def lower_def lower_char_def)
  note t1 = empty_catalog_distinct_only_when_listing[of True "Some ''Kitchen''" no_names runs_until_stopped living_room_catalog "''Kitchen''"]
  note t2 = empty_catalog_distinct_only_when_listing[of False None no_names runs_until_stopped living_room_catalog "''Kitchen''"]
  from t1 have a: "main_areas True (Some ''Kitchen'') (Inr []) no_names runs_until_stopped = (6, [AreasHeader, NoAreasFound])"
    by blast
  from t2 have b: "main_areas False None (Inr []) no_names runs_until_stopped = (6, [AreasHeader, NoAreasFound])"
    by blast
  from t1 h1 have c: "fst (main_areas True (Some ''Kitchen'') (Inr living_room_catalog) no_names runs_until_stopped) = 0"
    by blast
  from t1 h2 h3 have d: "main_areas False (Some ''Kitchen'') (Inr []) no_names runs_until_stopped =
        main_areas False (Some ''Kitchen'') (Inr living_room_catalog) no_names runs_until_stopped"
    by simp
  show ?thesis using h1 h2 h3 a b c d by blast
qed

text \<open>
  The original wording of C6 has area selection report the empty catalog differently
  from a missing area. Selecting "Kitchen" gives the same exit code and the same message
  for the empty catalog and for a catalog of two other areas.
\<close>

theorem empty_catalog_same_as_not_found_counterexample:
  "main_areas False (Some ''Kitchen'') (Inr []) no_names runs_until_stopped =
     (7, [LogError (''Failed to get entertainment configurations: Entertainment area '' @ quoted ''Kitchen'' @ '' not found''),
          LogError (''Failed to start bridge: Entertainment area '' @ quoted ''Kitchen'' @ '' not found'')])
   \<and> main_areas False (Some ''Kitchen'') (Inr living_room_catalog) no_names runs_until_stopped =
     (7, [LogError (''Failed to get entertainment configurations: Entertainment area '' @ quoted ''Kitchen'' @ '' not found''),
          LogError (''Failed to start bridge: Entertainment area '' @ quoted ''Kitchen'' @ '' not found'')])"
  by (simp add: main_areas_def start_bridge_def select_area_def living_room_catalog_def
        lower_def lower_char_def)

end
